theory Spec2Isabelle
  imports Main "HOL-Library.Word" "HOL-Library.Sublist" "HOL-Library.AList"
begin

section \<open>JavaScript strings\<close>

text \<open>
  A JavaScript string is a sequence of UTF-16 code units. A code unit is a 16-bit word
  and a string the list of its code units, so \<open>length\<close> is the JavaScript \<open>.length\<close>.
  String literals of the source are written \<open>js ''...''\<close>.
\<close>

type_synonym jschar = "16 word"
type_synonym jsstring = "jschar list"

definition js :: "string \<Rightarrow> jsstring" where
  "js s = map of_char s"

abbreviation LF :: jschar where "LF \<equiv> 0x0A"
abbreviation SPACE :: jschar where "SPACE \<equiv> 0x20"
abbreviation DOLLAR :: jschar where "DOLLAR \<equiv> 0x24"
abbreviation AMPERSAND :: jschar where "AMPERSAND \<equiv> 0x26"
abbreviation APOSTROPHE :: jschar where "APOSTROPHE \<equiv> 0x27"
abbreviation BACKTICK :: jschar where "BACKTICK \<equiv> 0x60"
abbreviation LBRACE :: jschar where "LBRACE \<equiv> 0x7B"
abbreviation RBRACE :: jschar where "RBRACE \<equiv> 0x7D"

text \<open>The regular expression class \<open>\d\<close>: the ten ASCII digits.\<close>

definition is_digit :: "jschar \<Rightarrow> bool" where
  "is_digit c \<longleftrightarrow> 0x30 \<le> c \<and> c \<le> 0x39"

text \<open>The class \<open>[a-zA-Z0-9_-]\<close> of \<open>SnippetValidator.validateKey\<close>.\<close>

definition is_key_char :: "jschar \<Rightarrow> bool" where
  "is_key_char c \<longleftrightarrow>
     (0x61 \<le> c \<and> c \<le> 0x7A) \<or> (0x41 \<le> c \<and> c \<le> 0x5A) \<or> is_digit c \<or> c = 0x5F \<or> c = 0x2D"

text \<open>
  What \<open>String.prototype.trim\<close> strips: the WhiteSpace and LineTerminator code units of
  ECMAScript (TAB, LF, VT, FF, CR, SPACE, NBSP, the Unicode space separators, LS, PS and
  the byte order mark).
\<close>

definition is_whitespace :: "jschar \<Rightarrow> bool" where
  "is_whitespace c \<longleftrightarrow>
     c \<in> set [0x09, 0x0A, 0x0B, 0x0C, 0x0D, 0x20, 0xA0, 0x1680, 0x2028, 0x2029, 0x202F,
               0x205F, 0x3000, 0xFEFF]
     \<or> (0x2000 \<le> c \<and> c \<le> 0x200A)"

definition trim :: "jsstring \<Rightarrow> jsstring" where
  "trim s = rev (dropWhile is_whitespace (rev (dropWhile is_whitespace s)))"

text \<open>\<open>s.split('\n')\<close>: the pieces between line feeds; always at least one piece.\<close>

fun split_lf :: "jsstring \<Rightarrow> jsstring list" where
  "split_lf [] = [[]]"
| "split_lf (c # cs) =
     (if c = LF then [] # split_lf cs
      else (case split_lf cs of [] \<Rightarrow> [[c]] | p # ps \<Rightarrow> (c # p) # ps))"

text \<open>\<open>parts.join(sep)\<close>.\<close>

fun join :: "jsstring \<Rightarrow> jsstring list \<Rightarrow> jsstring" where
  "join sep [] = []"
| "join sep [x] = x"
| "join sep (x # y # ys) = x @ sep @ join sep (y # ys)"

text \<open>The value of a string of decimal digits, and the decimal text of a natural number.\<close>

definition digits_value :: "jsstring \<Rightarrow> nat" where
  "digits_value ds = foldl (\<lambda>a c. 10 * a + unat (c - 0x30)) 0 ds"

fun number_to_string :: "nat \<Rightarrow> jsstring" where
  "number_to_string n =
     (if n < 10 then [of_nat (48 + n)]
      else number_to_string (n div 10) @ [of_nat (48 + n mod 10)])"

declare number_to_string.simps [simp del]

text \<open>
  \<open>parseInt(s, 10)\<close> on a string that starts with a digit: the value of its longest
  prefix of digits. JavaScript numbers are doubles: up to \<open>2^53\<close> every integer is
  represented exactly and prints as its decimal digits. \<open>None\<close> stands for the results
  this development does not follow: \<open>NaN\<close> (no leading digit; never the case for a
  placeholder token) and values beyond \<open>2^53\<close>, where \<open>parseInt\<close> rounds and the text of
  the number depends on floating-point formatting.
\<close>

definition parseInt10 :: "jsstring \<Rightarrow> nat option" where
  "parseInt10 s =
     (let ds = takeWhile is_digit s in
      if ds = [] then None
      else if digits_value ds \<le> 2 ^ 53 then Some (digits_value ds)
      else None)"

section \<open>SnippetValidator\<close>

record validation =
  isValid :: bool
  message :: jsstring

text \<open>\<open>/^[a-zA-Z0-9_-]+$/.test(key)\<close>.\<close>

definition matches_key_regex :: "jsstring \<Rightarrow> bool" where
  "matches_key_regex key \<longleftrightarrow> key \<noteq> [] \<and> list_all is_key_char key"

definition validateKey :: "jsstring \<Rightarrow> validation" where
  "validateKey key =
     (if key = [] \<or> trim key = [] then
        \<lparr>isValid = False, message = js ''Snippet key cannot be empty.''\<rparr>
      else if SPACE \<in> set key then
        \<lparr>isValid = False, message = js ''Snippet key cannot contain spaces.''\<rparr>
      else if \<not> matches_key_regex key then
        \<lparr>isValid = False,
         message = js ''Snippet key can only contain letters, numbers, hyphens, and underscores.''\<rparr>
      else \<lparr>isValid = True, message = []\<rparr>)"

section \<open>SnippetProcessor\<close>

subsection \<open>Placeholders\<close>

text \<open>
  A match of \<open>\{\d+\}\<close> anchored at the head of the string: the matched token and the
  rest of the string. The digits are matched greedily; a shorter run of digits is
  followed by a digit, never by the closing brace, so backtracking finds nothing more.
\<close>

definition match_placeholder :: "jsstring \<Rightarrow> (jsstring \<times> jsstring) option" where
  "match_placeholder s =
     (case s of
        [] \<Rightarrow> None
      | c # r \<Rightarrow>
          if c = LBRACE then
            (case dropWhile is_digit r of
               [] \<Rightarrow> None
             | d # rest \<Rightarrow>
                 if takeWhile is_digit r \<noteq> [] \<and> d = RBRACE
                 then Some (c # takeWhile is_digit r @ [d], rest)
                 else None)
          else None)"

text \<open>\<open>hasPlaceholders\<close>: \<open>/\{\d+\}/.test(text)\<close>, a match starting anywhere.\<close>

fun hasPlaceholders :: "jsstring \<Rightarrow> bool" where
  "hasPlaceholders [] = False"
| "hasPlaceholders (c # cs) =
     (if match_placeholder (c # cs) = None then hasPlaceholders cs else True)"

lemma match_placeholder_shorter:
  "match_placeholder s = Some (tok, rest) \<Longrightarrow> length rest < length s"
proof -
  assume m: "match_placeholder s = Some (tok, rest)"
  then obtain c r where s: "s = c # r"
    by (cases s) (auto simp: match_placeholder_def)
  from m s have "\<exists>d. dropWhile is_digit r = d # rest"
    by (auto simp: match_placeholder_def split: if_splits list.splits)
  then obtain d where d: "dropWhile is_digit r = d # rest" ..
  have "length (dropWhile is_digit r) \<le> length r"
    by (rule length_dropWhile_le)
  with d s show ?thesis by simp
qed

text \<open>
  \<open>text.match(/\{\d+\}/g)\<close>: all matches from left to right, each search starting
  where the previous match ended.
\<close>

function match_all :: "jsstring \<Rightarrow> jsstring list" where
  "match_all [] = []"
| "match_all (c # cs) =
     (case match_placeholder (c # cs) of
        None \<Rightarrow> match_all cs
      | Some (tok, rest) \<Rightarrow> tok # match_all rest)"
  by pat_completeness auto
termination
  by (relation "measure length") (auto dest: match_placeholder_shorter)

text \<open>\<open>[...new Set(matches)]\<close>: the distinct elements in order of first insertion.\<close>

fun set_add_all :: "'a list \<Rightarrow> 'a list \<Rightarrow> 'a list" where
  "set_add_all seen [] = seen"
| "set_add_all seen (x # xs) = set_add_all (if x \<in> set seen then seen else seen @ [x]) xs"

definition extractPlaceholders :: "jsstring \<Rightarrow> jsstring list" where
  "extractPlaceholders text =
     (case match_all text of [] \<Rightarrow> [] | m # ms \<Rightarrow> set_add_all [] (m # ms))"

subsection \<open>Replacement\<close>

text \<open>
  The replacement-string syntax of \<open>String.prototype.replace\<close> (GetSubstitution) for a
  pattern without capture groups: \<open>$$\<close> is a dollar sign, \<open>$&\<close> the matched text,
  \<open>$`\<close> the text before the match and \<open>$'\<close> the text after it; a dollar sign
  followed by anything else is copied as it is.
\<close>

fun getSubstitution :: "jsstring \<Rightarrow> jsstring \<Rightarrow> jsstring \<Rightarrow> jsstring \<Rightarrow> jsstring" where
  "getSubstitution matched preceding following [] = []"
| "getSubstitution matched preceding following [c] = [c]"
| "getSubstitution matched preceding following (c # d # r) =
     (if c = DOLLAR then
        (if d = DOLLAR then DOLLAR # getSubstitution matched preceding following r
         else if d = BACKTICK then preceding @ getSubstitution matched preceding following r
         else if d = AMPERSAND then matched @ getSubstitution matched preceding following r
         else if d = APOSTROPHE then following @ getSubstitution matched preceding following r
         else c # getSubstitution matched preceding following (d # r))
      else c # getSubstitution matched preceding following (d # r))"

text \<open>
  \<open>str.replace(new RegExp(pat, 'g'), repl)\<close> for a pattern that matches the literal text
  \<open>pat\<close>: every match from left to right, each search starting where the previous match
  ended, is replaced by the expansion of \<open>repl\<close>. \<open>scanned\<close> is the part of the
  subject that precedes the current position.
\<close>

function replace_global :: "jsstring \<Rightarrow> jsstring \<Rightarrow> jsstring \<Rightarrow> jsstring \<Rightarrow> jsstring" where
  "replace_global pat repl scanned [] = []"
| "replace_global pat repl scanned (c # cs) =
     (if pat \<noteq> [] \<and> take (length pat) (c # cs) = pat
      then getSubstitution pat scanned (drop (length pat) (c # cs)) repl
           @ replace_global pat repl (scanned @ pat) (drop (length pat) (c # cs))
      else c # replace_global pat repl (scanned @ [c]) cs)"
  by pat_completeness auto
termination
  by (relation "measure (\<lambda>(pat, repl, scanned, s). length s)") auto

text \<open>The text that \<open>new RegExp('\\{' + paramNum + '\\}', 'g')\<close> matches.\<close>

definition placeholder_pattern :: "nat \<Rightarrow> jsstring" where
  "placeholder_pattern paramNum = LBRACE # number_to_string paramNum @ [RBRACE]"

text \<open>\<open>placeholder.replace(/[{}]/g, '')\<close>.\<close>

definition strip_braces :: "jsstring \<Rightarrow> jsstring" where
  "strip_braces placeholder = filter (\<lambda>c. c \<noteq> LBRACE \<and> c \<noteq> RBRACE) placeholder"

text \<open>The \<open>if\<close> chain of \<open>processTemplate\<close> that chooses the replacement, in its order.\<close>

definition replacement_for :: "nat \<Rightarrow> jsstring list \<Rightarrow> jsstring" where
  "replacement_for paramNum lines =
     (if paramNum = 1 then (if length lines > 0 then lines ! 0 else [])
      else if paramNum > 1 \<and> paramNum \<le> length lines then lines ! (paramNum - 1)
      else if paramNum = 2 \<and> length lines > 1 then join [SPACE] (drop 1 lines)
      else [])"

text \<open>The body of the \<open>forEach\<close> callback: one placeholder applied to \<open>processedText\<close>.\<close>

definition substitute :: "jsstring list \<Rightarrow> jsstring \<Rightarrow> jsstring \<Rightarrow> jsstring option" where
  "substitute lines placeholder processedText =
     (case parseInt10 (strip_braces placeholder) of
        None \<Rightarrow> None
      | Some paramNum \<Rightarrow>
          Some (replace_global (placeholder_pattern paramNum) (replacement_for paramNum lines)
                  [] processedText))"

fun forEach_placeholder :: "jsstring list \<Rightarrow> jsstring list \<Rightarrow> jsstring \<Rightarrow> jsstring option" where
  "forEach_placeholder lines [] processedText = Some processedText"
| "forEach_placeholder lines (p # ps) processedText =
     (case substitute lines p processedText of
        None \<Rightarrow> None
      | Some processedText' \<Rightarrow> forEach_placeholder lines ps processedText')"

text \<open>The selected text split into lines, each trimmed, the empty ones dropped.\<close>

definition selection_lines :: "jsstring \<Rightarrow> jsstring list" where
  "selection_lines selectedText = filter (\<lambda>line. length line > 0) (map trim (split_lf selectedText))"

text \<open>
  \<open>processTemplate(snippetText, selectedText)\<close>. An absent selection (\<open>undefined\<close>,
  \<open>null\<close>) is \<open>None\<close>. The result is \<open>None\<close> only when a placeholder's number is beyond
  \<open>2^53\<close> (see \<open>parseInt10\<close>).
\<close>

definition processTemplate :: "jsstring \<Rightarrow> jsstring option \<Rightarrow> jsstring option" where
  "processTemplate snippetText selectedText =
     (case selectedText of
        None \<Rightarrow> Some snippetText
      | Some sel \<Rightarrow>
          if sel = [] then Some snippetText
          else if hasPlaceholders snippetText then
            forEach_placeholder (selection_lines sel) (extractPlaceholders snippetText) snippetText
          else Some snippetText)"

section \<open>Settings: three JavaScript objects\<close>

text \<open>
  The plugin keeps its snippets in three plain objects keyed by snippet key: the texts
  (\<open>settings.snippets\<close>), the icons and the groups. The order of the snippets is the
  order of \<open>Object.keys(settings.snippets)\<close>; there is no separate list of keys.

  An object whose values are strings is the list of its own properties in the order
  of their creation.
\<close>

type_synonym jsobject = "(jsstring \<times> jsstring) list"

text \<open>
  An array index is the canonical decimal text of an integer below \<open>2^32 - 1\<close>: no sign,
  no leading zero.
\<close>

definition is_array_index :: "jsstring \<Rightarrow> bool" where
  "is_array_index k \<longleftrightarrow>
     k \<noteq> [] \<and> list_all is_digit k \<and> (k = [0x30] \<or> hd k \<noteq> 0x30) \<and> digits_value k < 2 ^ 32 - 1"

text \<open>
  The own properties as \<open>Object.keys\<close>, \<open>Object.entries\<close> and the spread syntax
  enumerate them: the array indices first, in ascending numeric order, then the other
  keys in the order of their creation.
\<close>

definition own_entries :: "jsobject \<Rightarrow> (jsstring \<times> jsstring) list" where
  "own_entries obj =
     sort_key (\<lambda>(k, v). digits_value k) (filter (\<lambda>(k, v). is_array_index k) obj)
     @ filter (\<lambda>(k, v). \<not> is_array_index k) obj"

definition Object_keys :: "jsobject \<Rightarrow> jsstring list" where
  "Object_keys obj = map fst (own_entries obj)"

text \<open>
  What reading \<open>obj[key]\<close> gives: the own property when there is one, else what the object
  inherits from \<open>Object.prototype\<close> (a function, or the prototype itself for
  \<open>__proto__\<close>), else \<open>undefined\<close>.
\<close>

datatype jsvalue = Undefined | String jsstring | Inherited

definition Object_prototype_names :: "jsstring list" where
  "Object_prototype_names =
     [js ''constructor'', js ''hasOwnProperty'', js ''isPrototypeOf'', js ''propertyIsEnumerable'',
      js ''toLocaleString'', js ''toString'', js ''valueOf'', js ''__proto__'',
      js ''__defineGetter__'', js ''__defineSetter__'', js ''__lookupGetter__'',
      js ''__lookupSetter__'']"

definition get_property :: "jsobject \<Rightarrow> jsstring \<Rightarrow> jsvalue" where
  "get_property obj key =
     (case map_of obj key of
        Some v \<Rightarrow> String v
      | None \<Rightarrow> if key \<in> set Object_prototype_names then Inherited else Undefined)"

text \<open>Truthiness, as \<open>if (x)\<close> and \<open>a && b\<close> test it: the empty string is falsy.\<close>

fun truthy :: "jsvalue \<Rightarrow> bool" where
  "truthy Undefined = False"
| "truthy (String s) = (s \<noteq> [])"
| "truthy Inherited = True"

text \<open>
  \<open>obj[key] = v\<close> for a string \<open>v\<close>: an own property keeps its place and takes the new
  value; a new property is created last. Assigning a string to \<open>__proto__\<close> on an object
  without such an own property calls the inherited setter, which ignores it.
\<close>

definition set_property :: "jsobject \<Rightarrow> jsstring \<Rightarrow> jsstring \<Rightarrow> jsobject" where
  "set_property obj key v =
     (if map_of obj key = None \<and> key = js ''__proto__'' then obj else AList.update key v obj)"

text \<open>\<open>delete obj[key]\<close>.\<close>

definition delete_property :: "jsobject \<Rightarrow> jsstring \<Rightarrow> jsobject" where
  "delete_property obj key = AList.delete key obj"

text \<open>\<open>{ ...obj }\<close>: a new object with the own properties in enumeration order; empty for \<open>undefined\<close>.\<close>

definition spread :: "jsobject option \<Rightarrow> jsobject" where
  "spread obj = (case obj of None \<Rightarrow> [] | Some ob \<Rightarrow> own_entries ob)"

text \<open>
  \<open>plugin.settings\<close>. The code guards every use of \<open>icons\<close> and \<open>groups\<close> against
  their absence, so they are optional here.
\<close>

record settings =
  snippets :: jsobject
  icons :: "jsobject option"
  groups :: "jsobject option"

text \<open>The own property \<open>key\<close> of an attribute object, when both exist.\<close>

definition own_property :: "jsobject option \<Rightarrow> jsstring \<Rightarrow> jsstring option" where
  "own_property obj key = (case obj of None \<Rightarrow> None | Some ob \<Rightarrow> map_of ob key)"

definition DEFAULT_ICON :: jsstring where
  "DEFAULT_ICON = js ''stamp''"

definition DEFAULT_SETTINGS :: settings where
  "DEFAULT_SETTINGS =
     \<lparr>snippets = [(js ''hello'', js ''_Hello World_''),
                  (js ''greet'', js ''Hello {1} (from Insertive)'')],
      icons = Some [(js ''hello'', js ''stamp''), (js ''greet'', js ''hand'')],
      groups = Some [(js ''hello'', []), (js ''greet'', [])]\<rparr>"

section \<open>InsertiveSettingTab and EditSnippetModal\<close>

text \<open>
  What a handler did, next to the settings it leaves:
  \<^item> \<open>MissingInput\<close>: the notice "Please enter both a key and text value", nothing done;
  \<^item> \<open>InvalidKey m\<close>: the notice with the validator's message \<open>m\<close>, nothing done;
  \<^item> \<open>DuplicateKey\<close>: the key is taken; \<open>handleAddSnippet\<close> opens the confirmation
    dialog (only its callback, \<open>replaceSnippet\<close>, changes anything) and \<open>handleSave\<close>
    shows the notice "already exists";
  \<^item> \<open>Added\<close>, \<open>Updated\<close>: the settings were changed and saved.
\<close>

datatype outcome = MissingInput | InvalidKey jsstring | DuplicateKey | Added | Updated

text \<open>\<open>settings.icons\<close> after \<open>if (!settings.icons) settings.icons = {}\<close>.\<close>

definition or_empty :: "jsobject option \<Rightarrow> jsobject" where
  "or_empty obj = (case obj of None \<Rightarrow> [] | Some ob \<Rightarrow> ob)"

definition addNewSnippet :: "jsstring \<Rightarrow> jsstring \<Rightarrow> settings \<Rightarrow> settings" where
  "addNewSnippet key value s =
     s\<lparr>snippets := set_property (snippets s) key value,
       icons := Some (set_property (or_empty (icons s)) key DEFAULT_ICON),
       groups := Some (set_property (or_empty (groups s)) key [])\<rparr>"

definition replaceSnippet :: "jsstring \<Rightarrow> jsstring \<Rightarrow> settings \<Rightarrow> settings" where
  "replaceSnippet key value s = s\<lparr>snippets := set_property (snippets s) key value\<rparr>"

definition handleAddSnippet :: "jsstring \<Rightarrow> jsstring \<Rightarrow> settings \<Rightarrow> outcome \<times> settings" where
  "handleAddSnippet key value s =
     (if key = [] \<or> value = [] then (MissingInput, s)
      else if \<not> isValid (validateKey key) then (InvalidKey (message (validateKey key)), s)
      else if truthy (get_property (snippets s) key) then (DuplicateKey, s)
      else (Added, addNewSnippet key value s))"

definition handleDeleteSnippet :: "jsstring \<Rightarrow> settings \<Rightarrow> settings" where
  "handleDeleteSnippet key s =
     s\<lparr>snippets := delete_property (snippets s) key,
       icons :=
         (case icons s of
            None \<Rightarrow> None
          | Some ic \<Rightarrow>
              if truthy (get_property ic key) then Some (delete_property ic key) else Some ic),
       groups :=
         (case groups s of
            None \<Rightarrow> None
          | Some gr \<Rightarrow>
              if truthy (get_property gr key) then Some (delete_property gr key) else Some gr)\<rparr>"

text \<open>
  \<open>EditSnippetModal.handleSave\<close>: \<open>originalKey\<close> is the key of the snippet being edited,
  \<open>key\<close>, \<open>value\<close>, \<open>icon\<close> and \<open>group'\<close> the fields of the form.
\<close>

definition handleSave ::
  "jsstring \<Rightarrow> jsstring \<Rightarrow> jsstring \<Rightarrow> jsstring \<Rightarrow> jsstring \<Rightarrow> settings \<Rightarrow> outcome \<times> settings" where
  "handleSave originalKey key value icon group' s =
     (if key = [] \<or> value = [] then (MissingInput, s)
      else if key \<noteq> originalKey \<and> \<not> isValid (validateKey key) then
        (InvalidKey (message (validateKey key)), s)
      else if key \<noteq> originalKey \<and> truthy (get_property (snippets s) key) then (DuplicateKey, s)
      else
        (Updated,
         s\<lparr>snippets :=
             set_property (delete_property (spread (Some (snippets s))) originalKey) key value,
           icons := Some (set_property (delete_property (spread (icons s)) originalKey) key icon),
           groups :=
             Some (set_property (delete_property (spread (groups s)) originalKey) key group')\<rparr>))"


section \<open>Evaluation on closed terms\<close>

lemmas eval_template =
  processTemplate_def js_def selection_lines_def trim_def is_whitespace_def is_digit_def
  extractPlaceholders_def match_placeholder_def substitute_def parseInt10_def strip_braces_def
  digits_value_def placeholder_pattern_def replacement_for_def number_to_string.simps

lemmas eval_repository =
  js_def DEFAULT_SETTINGS_def DEFAULT_ICON_def handleSave_def handleAddSnippet_def
  handleDeleteSnippet_def addNewSnippet_def replaceSnippet_def set_property_def
  delete_property_def get_property_def spread_def or_empty_def own_entries_def Object_keys_def
  is_array_index_def own_property_def Object_prototype_names_def is_digit_def digits_value_def
  validateKey_def trim_def is_whitespace_def matches_key_regex_def is_key_char_def

section \<open>The placeholder expressions\<close>

lemma RBRACE_not_digit: "\<not> is_digit RBRACE"
  by (simp add: is_digit_def)

lemma LBRACE_not_digit: "\<not> is_digit LBRACE"
  by (simp add: is_digit_def)

text \<open>A brace, digits and a brace at the head of a string are matched there.\<close>

lemma match_placeholder_prefix:
  assumes "ds \<noteq> []" "list_all is_digit ds"
  shows "match_placeholder (LBRACE # ds @ RBRACE # rest) = Some (LBRACE # ds @ [RBRACE], rest)"
proof -
  have "\<forall>x\<in>set ds. is_digit x"
    using assms(2) by (simp add: list_all_iff)
  then have t: "takeWhile is_digit (ds @ RBRACE # rest) = ds"
    and d: "dropWhile is_digit (ds @ RBRACE # rest) = RBRACE # rest"
    by (simp_all add: takeWhile_append2 dropWhile_append2 RBRACE_not_digit)
  show ?thesis
    using assms(1) by (simp add: match_placeholder_def t d)
qed

text \<open>Conversely, a match is such a token, and the subject is the token and the rest.\<close>

lemma match_placeholder_SomeD:
  assumes "match_placeholder s = Some (tok, rest)"
  shows "\<exists>ds. ds \<noteq> [] \<and> list_all is_digit ds \<and> tok = LBRACE # ds @ [RBRACE]
            \<and> s = LBRACE # ds @ RBRACE # rest"
proof -
  from assms obtain c r where s: "s = c # r"
    by (cases s) (auto simp: match_placeholder_def)
  from assms s have c: "c = LBRACE"
    by (auto simp: match_placeholder_def split: if_splits)
  from assms s c obtain d where d: "dropWhile is_digit r = d # rest"
    by (auto simp: match_placeholder_def split: if_splits list.splits)
  from assms s c d have ne: "takeWhile is_digit r \<noteq> []"
    and dR: "d = RBRACE"
    and tok: "tok = LBRACE # takeWhile is_digit r @ [RBRACE]"
    by (auto simp: match_placeholder_def split: if_splits)
  have "r = takeWhile is_digit r @ dropWhile is_digit r"
    by simp
  then have r: "r = takeWhile is_digit r @ RBRACE # rest"
    using d dR by simp
  have "list_all is_digit (takeWhile is_digit r)"
    by (simp add: list_all_iff) (meson set_takeWhileD)
  with ne tok r s c show ?thesis
    by blast
qed

lemma sublist_skip:
  "a \<notin> set ys \<Longrightarrow> sublist (a # xs) (ys @ zs) \<Longrightarrow> sublist (a # xs) zs"
  by (induction ys) (auto simp: sublist_Cons_right)

text \<open>
  No occurrence of a token escapes the global match: a match holds one opening brace,
  its first code unit, so it cannot cover the start of another token.
\<close>

lemma token_in_match_all:
  assumes "ds \<noteq> []" "list_all is_digit ds"
  shows "sublist (LBRACE # ds @ [RBRACE]) t \<Longrightarrow> LBRACE # ds @ [RBRACE] \<in> set (match_all t)"
proof (induction t rule: match_all.induct)
  case 1
  then show ?case by simp
next
  case (2 c cs)
  let ?tok = "LBRACE # ds @ [RBRACE]"
  from "2.prems" have "prefix ?tok (c # cs) \<or> sublist ?tok cs"
    by (simp add: sublist_Cons_right)
  then show ?case
  proof
    assume "prefix ?tok (c # cs)"
    then obtain rest where "c # cs = ?tok @ rest"
      by (auto simp: prefix_def)
    then have "c # cs = LBRACE # ds @ RBRACE # rest"
      by simp
    then have "match_placeholder (c # cs) = Some (?tok, rest)"
      using match_placeholder_prefix [OF assms] by simp
    then show ?thesis
      by simp
  next
    assume sub: "sublist ?tok cs"
    show ?thesis
    proof (cases "match_placeholder (c # cs)")
      case None
      with sub "2.IH"(1) show ?thesis
        by simp
    next
      case (Some m)
      obtain tok' rest where m: "m = (tok', rest)"
        by (cases m)
      from Some m obtain ds' where ds': "list_all is_digit ds'"
        and cs: "c # cs = LBRACE # ds' @ RBRACE # rest"
        using match_placeholder_SomeD by blast
      from cs have cs': "cs = (ds' @ [RBRACE]) @ rest"
        by simp
      have "LBRACE \<notin> set (ds' @ [RBRACE])"
        using ds' LBRACE_not_digit by (auto simp: list_all_iff)
      with sub cs' have "sublist ?tok rest"
        using sublist_skip by metis
      with "2.IH"(2) [OF Some m [symmetric]] have "?tok \<in> set (match_all rest)"
        by simp
      with Some m show ?thesis
        by simp
    qed
  qed
qed

text \<open>Every match is a token that occurs in the text.\<close>

lemma match_all_token:
  "tok \<in> set (match_all t) \<Longrightarrow>
     \<exists>ds. ds \<noteq> [] \<and> list_all is_digit ds \<and> tok = LBRACE # ds @ [RBRACE] \<and> sublist tok t"
proof (induction t rule: match_all.induct)
  case 1
  then show ?case by simp
next
  case (2 c cs)
  show ?case
  proof (cases "match_placeholder (c # cs)")
    case None
    with "2.prems" have "tok \<in> set (match_all cs)"
      by simp
    with "2.IH"(1) [OF None] show ?thesis
      by (auto simp: sublist_Cons_right)
  next
    case (Some m)
    obtain tok' rest where m: "m = (tok', rest)"
      by (cases m)
    from Some m obtain ds where ds: "ds \<noteq> []" "list_all is_digit ds" "tok' = LBRACE # ds @ [RBRACE]"
      and cs: "c # cs = LBRACE # ds @ RBRACE # rest"
      using match_placeholder_SomeD by blast
    from "2.prems" Some m have "tok = tok' \<or> tok \<in> set (match_all rest)"
      by auto
    then show ?thesis
    proof
      assume t: "tok = tok'"
      have "c # cs = [] @ tok' @ rest"
        using cs ds(3) by simp
      then have "sublist tok' (c # cs)"
        unfolding sublist_def by blast
      with t ds show ?thesis
        by blast
    next
      assume "tok \<in> set (match_all rest)"
      with "2.IH"(2) [OF Some m [symmetric]] obtain ds' where
        d: "ds' \<noteq> []" "list_all is_digit ds'" "tok = LBRACE # ds' @ [RBRACE]"
        and s: "sublist tok rest"
        by blast
      from s obtain ps ss where "rest = ps @ tok @ ss"
        unfolding sublist_def by blast
      then have "c # cs = (LBRACE # ds @ RBRACE # ps) @ tok @ ss"
        using cs by simp
      then have "sublist tok (c # cs)"
        unfolding sublist_def by blast
      with d show ?thesis
        by blast
    qed
  qed
qed



lemma hasPlaceholders_match_all: "hasPlaceholders t \<longleftrightarrow> match_all t \<noteq> []"
  by (induction t rule: match_all.induct) (auto split: option.splits)

text \<open>
  \<open>hasPlaceholders\<close> is true exactly of the texts that contain a brace, one or more
  digits and a brace.
\<close>

lemma hasPlaceholders_iff:
  "hasPlaceholders t \<longleftrightarrow>
     (\<exists>ds. ds \<noteq> [] \<and> list_all is_digit ds \<and> sublist (LBRACE # ds @ [RBRACE]) t)"
proof
  assume "hasPlaceholders t"
  then obtain tok where "tok \<in> set (match_all t)"
    by (cases "match_all t") (auto simp: hasPlaceholders_match_all)
  then show "\<exists>ds. ds \<noteq> [] \<and> list_all is_digit ds \<and> sublist (LBRACE # ds @ [RBRACE]) t"
    using match_all_token by blast
next
  assume "\<exists>ds. ds \<noteq> [] \<and> list_all is_digit ds \<and> sublist (LBRACE # ds @ [RBRACE]) t"
  then obtain ds where "ds \<noteq> []" "list_all is_digit ds" "sublist (LBRACE # ds @ [RBRACE]) t"
    by blast
  then have "LBRACE # ds @ [RBRACE] \<in> set (match_all t)"
    by (rule token_in_match_all)
  then show "hasPlaceholders t"
    by (auto simp: hasPlaceholders_match_all)
qed

section \<open>Properties of the template engine\<close>

text \<open>
  C8: a template that contains no placeholder token is returned unchanged whatever the
  selection, and every template is returned unchanged when the selection is absent or
  empty. (By \<open>hasPlaceholders_iff\<close>, \<open>hasPlaceholders\<close> is exactly "contains a token
  matching \<open>\{\d+\}\<close>".)
\<close>

theorem processTemplate_unchanged:
  "selectedText = None \<or> selectedText = Some [] \<or> \<not> hasPlaceholders snippetText
   \<Longrightarrow> processTemplate snippetText selectedText = Some snippetText"
  by (auto simp: processTemplate_def split: option.splits)

theorem processTemplate_unchanged_witness:
  "\<not> hasPlaceholders (js ''_Hello World_'')
   \<and> processTemplate (js ''_Hello World_'') (Some (js ''some words'')) = Some (js ''_Hello World_'')
   \<and> processTemplate (js ''Hello {1} (from Insertive)'') None = Some (js ''Hello {1} (from Insertive)'')
   \<and> processTemplate (js ''Hello {1} (from Insertive)'') (Some []) = Some (js ''Hello {1} (from Insertive)'')"
proof -
  have h: "\<not> hasPlaceholders (js ''_Hello World_'')"
    by (simp add: js_def match_placeholder_def)
  show ?thesis
    using h
      processTemplate_unchanged [of "Some (js ''some words'')" "js ''_Hello World_''"]
      processTemplate_unchanged [of None "js ''Hello {1} (from Insertive)''"]
      processTemplate_unchanged [of "Some []" "js ''Hello {1} (from Insertive)''"]
    by simp
qed




text \<open>
  The chain that chooses the replacement, in closed form: the line with the number of the
  placeholder when there is one, else the empty string. The branch that joins the lines
  from the second on is never taken.
\<close>

lemma replacement_for_line:
  "replacement_for paramNum lines =
     (if 1 \<le> paramNum \<and> paramNum \<le> length lines then lines ! (paramNum - 1) else [])"
  by (cases lines) (auto simp: replacement_for_def Suc_le_eq)

text \<open>
  C1 (grouped tail): the documentation of \<open>processTemplate\<close> gives, for the template
  "> {1}", line feed, "> {2}" and the selection of the three lines Hello, world, test,
  the result "> Hello", line feed, "> world test". The chain that chooses the
  replacement tests "paramNum > 1 and paramNum <= lines.length" before it tests
  "paramNum === 2 and lines.length > 1", so with two or more lines placeholder 2 takes
  the second line alone and the joining branch is never reached: the code returns
  "> Hello", line feed, "> world".
\<close>

theorem processTemplate_docstring_example_differs:
  "processTemplate (js ''> {1}\<newline>> {2}'') (Some (js ''Hello\<newline>world\<newline>test''))
     = Some (js ''> Hello\<newline>> world'')"
  by (simp add: eval_template)

text \<open>
  C9 (the replacement appears verbatim): the selected line is handed to
  \<open>String.prototype.replace\<close> as a replacement string, in which a dollar sign starts a
  replacement pattern. A selection of \<open>$$20\<close> is inserted as \<open>$20\<close>, and in a selection
  \<open>a$&b\<close> the two characters \<open>$&\<close> are replaced by the matched placeholder itself.
\<close>

theorem processTemplate_dollar_patterns:
  "processTemplate (js ''Price: {1}'') (Some (js ''$$20'')) = Some (js ''Price: $20'')
   \<and> processTemplate (js ''<{1}>'') (Some (js ''a$&b'')) = Some (js ''<a{1}b>'')"
  by (simp add: eval_template)

subsection \<open>The order of the substitutions\<close>


lemma dropWhile_none: "\<forall>x\<in>set xs. \<not> P x \<Longrightarrow> dropWhile P xs = xs"
  by (cases xs) auto

lemma trim_id: "\<not> list_ex is_whitespace b \<Longrightarrow> trim b = b"
  by (simp add: trim_def dropWhile_none list_ex_iff)



lemma SPACE_whitespace: "is_whitespace SPACE"
  by (simp add: is_whitespace_def)






section \<open>Properties of the key validator\<close>

lemma is_key_char_not_whitespace: "is_key_char c \<Longrightarrow> \<not> is_whitespace c"
  unfolding is_key_char_def is_whitespace_def is_digit_def
  by (auto simp: word_le_nat_alt)

lemma matches_no_whitespace: "matches_key_regex key \<Longrightarrow> \<not> list_ex is_whitespace key"
  by (auto simp: matches_key_regex_def list_ex_iff list_all_iff dest: is_key_char_not_whitespace)

lemma matches_trim_nonempty: "matches_key_regex key \<Longrightarrow> trim key \<noteq> []"
  using trim_id [OF matches_no_whitespace] by (auto simp: matches_key_regex_def)

lemma matches_no_space: "matches_key_regex key \<Longrightarrow> SPACE \<notin> set key"
  using matches_no_whitespace [of key] SPACE_whitespace by (auto simp: list_ex_iff)

lemma trim_Nil: "trim [] = []"
  by (simp add: trim_def)

lemma validateKey_isValid_iff:
  "isValid (validateKey key) \<longleftrightarrow>
     trim key \<noteq> [] \<and> \<not> list_ex is_whitespace key \<and> matches_key_regex key"
  using matches_trim_nonempty [of key] matches_no_space [of key] trim_Nil
    matches_no_whitespace [of key]
  by (auto simp: validateKey_def)

text \<open>
  C7, as the claim states it, fails for the order of the rules: the second rule of the
  code tests for the space character U+0020, not for whitespace. The key a, TAB, b is
  not empty after trimming and contains whitespace, yet it is reported under the third
  rule (invalid characters), not under the second.
\<close>

theorem validateKey_tab_reported_as_invalid_characters:
  "trim [0x61, 0x09, 0x62] \<noteq> []
   \<and> list_ex is_whitespace [0x61, 0x09, 0x62]
   \<and> validateKey [0x61, 0x09, 0x62] = \<lparr>isValid = False,
        message = js ''Snippet key can only contain letters, numbers, hyphens, and underscores.''\<rparr>"
  by (simp add: validateKey_def trim_def is_whitespace_def matches_key_regex_def is_key_char_def
      is_digit_def)

text \<open>
  C7, amended: a key is valid if and only if it is non-empty after trimming whitespace,
  contains no whitespace and matches \<open>^[a-zA-Z0-9_-]+$\<close>. Three rules are checked in
  order and the first that fails gives the reason: a key that is empty after trimming
  is reported as empty; else a key that contains the space character U+0020 is reported
  as containing spaces; else a key that does not match the expression (a key with a tab
  or a line feed among them) is reported for its invalid characters.
\<close>

theorem validateKey_rules:
  "(isValid (validateKey key) \<longleftrightarrow>
      trim key \<noteq> [] \<and> \<not> list_ex is_whitespace key \<and> matches_key_regex key)
   \<and> (trim key = [] \<longrightarrow>
        validateKey key = \<lparr>isValid = False, message = js ''Snippet key cannot be empty.''\<rparr>)
   \<and> (trim key \<noteq> [] \<and> SPACE \<in> set key \<longrightarrow>
        validateKey key =
          \<lparr>isValid = False, message = js ''Snippet key cannot contain spaces.''\<rparr>)
   \<and> (trim key \<noteq> [] \<and> SPACE \<notin> set key \<and> \<not> matches_key_regex key \<longrightarrow>
        validateKey key = \<lparr>isValid = False,
          message = js ''Snippet key can only contain letters, numbers, hyphens, and underscores.''\<rparr>)
   \<and> (matches_key_regex key \<longrightarrow> validateKey key = \<lparr>isValid = True, message = []\<rparr>)"
  using trim_Nil matches_trim_nonempty [of key] matches_no_space [of key]
    validateKey_isValid_iff [of key]
  by (auto simp: validateKey_def)

theorem validateKey_rules_witness:
  "validateKey (js ''email-intro_2'') = \<lparr>isValid = True, message = []\<rparr>
   \<and> validateKey (js ''   '') = \<lparr>isValid = False, message = js ''Snippet key cannot be empty.''\<rparr>
   \<and> validateKey (js ''my key'')
       = \<lparr>isValid = False, message = js ''Snippet key cannot contain spaces.''\<rparr>
   \<and> validateKey (js ''a.b'') = \<lparr>isValid = False,
        message = js ''Snippet key can only contain letters, numbers, hyphens, and underscores.''\<rparr>"
proof -
  have 1: "matches_key_regex (js ''email-intro_2'')"
    by (simp add: matches_key_regex_def js_def is_key_char_def is_digit_def)
  have 2: "trim (js ''   '') = []"
    by (simp add: trim_def js_def is_whitespace_def)
  have 3: "trim (js ''my key'') \<noteq> [] \<and> SPACE \<in> set (js ''my key'')"
    by (simp add: trim_def js_def is_whitespace_def)
  have 4: "trim (js ''a.b'') \<noteq> [] \<and> SPACE \<notin> set (js ''a.b'') \<and> \<not> matches_key_regex (js ''a.b'')"
    by (simp add: trim_def js_def is_whitespace_def matches_key_regex_def is_key_char_def
        is_digit_def)
  show ?thesis
    using validateKey_rules [of "js ''email-intro_2''"] validateKey_rules [of "js ''   ''"]
      validateKey_rules [of "js ''my key''"] validateKey_rules [of "js ''a.b''"] 1 2 3 4
    by simp
qed

section \<open>Properties of the snippet repository\<close>

lemma update_absent: "map_of obj k = None \<Longrightarrow> AList.update k v obj = obj @ [(k, v)]"
  by (induction obj) (auto split: if_splits)

lemma own_entries_append_plain:
  "\<not> is_array_index k \<Longrightarrow> own_entries (obj @ [(k, v)]) = own_entries obj @ [(k, v)]"
  by (simp add: own_entries_def)

lemma proto_is_prototype_name: "js ''__proto__'' \<in> set Object_prototype_names"
  by (simp add: Object_prototype_names_def)

lemma map_of_set_property_same:
  "key \<noteq> js ''__proto__'' \<Longrightarrow> map_of (set_property obj key v) key = Some v"
  by (simp add: set_property_def update_conv')

lemma map_of_set_property_other:
  "k' \<noteq> key \<Longrightarrow> map_of (set_property obj key v) k' = map_of obj k'"
  by (simp add: set_property_def update_conv')

text \<open>
  A valid key with a text is added unless the repository holds the key or
  \<open>Object.prototype\<close> has a member of that name (\<open>constructor\<close>, \<open>toString\<close>, ...), which
  the test \<open>settings.snippets[key]\<close> takes for a snippet.
\<close>

lemma handleAddSnippet_succeeds:
  assumes "isValid (validateKey key)" "value \<noteq> []" "map_of (snippets s) key = None"
    "key \<notin> set Object_prototype_names"
  shows "handleAddSnippet key value s = (Added, addNewSnippet key value s)"
proof -
  from assms(1) have "key \<noteq> []"
    by (auto simp: validateKey_def)
  with assms show ?thesis
    by (simp add: handleAddSnippet_def get_property_def)
qed

text \<open>
  C3 (an edit that keeps the key preserves the position): \<open>handleSave\<close> deletes the
  original key from copies of the three objects and then sets the key again, also when
  the key is unchanged, so the edited snippet is created anew and becomes the last key.
  With the default settings, whose keys are hello, greet, saving a new text for hello
  leaves the keys greet, hello. The sibling \<open>replaceSnippet\<close>, which also gives an
  existing key a new text, assigns in place and keeps the order.
\<close>

theorem handleSave_moves_edited_snippet:
  "Object_keys (snippets DEFAULT_SETTINGS) = [js ''hello'', js ''greet'']
   \<and> fst (handleSave (js ''hello'') (js ''hello'') (js ''Hi'') (js ''stamp'') [] DEFAULT_SETTINGS)
       = Updated
   \<and> Object_keys (snippets (snd (handleSave (js ''hello'') (js ''hello'') (js ''Hi'') (js ''stamp'') []
          DEFAULT_SETTINGS))) = [js ''greet'', js ''hello'']
   \<and> Object_keys (snippets (replaceSnippet (js ''hello'') (js ''Hi'') DEFAULT_SETTINGS))
       = [js ''hello'', js ''greet'']"
  by (simp add: eval_repository)

text \<open>
  What \<open>handleDeleteSnippet\<close> does remove: the snippet itself, and an icon or a group
  that is not the empty string.
\<close>

lemma handleDeleteSnippet_removes_snippet:
  "map_of (snippets (handleDeleteSnippet key s)) key = None"
  by (simp add: handleDeleteSnippet_def delete_property_def delete_conv')

lemma handleDeleteSnippet_removes_nonempty_attributes:
  "(own_property (icons s) key = Some i \<and> i \<noteq> [] \<longrightarrow>
      own_property (icons (handleDeleteSnippet key s)) key = None)
   \<and> (own_property (groups s) key = Some g \<and> g \<noteq> [] \<longrightarrow>
      own_property (groups (handleDeleteSnippet key s)) key = None)"
  by (auto simp: handleDeleteSnippet_def own_property_def get_property_def delete_property_def
      delete_conv' split: option.splits)

text \<open>
  C4 (no attribute of a deleted key remains): \<open>handleDeleteSnippet\<close> deletes the icon
  and the group of the key under the tests \<open>settings.icons[key]\<close> and
  \<open>settings.groups[key]\<close>, which are false for the empty string. The group of a snippet
  without a group is the empty string, so its entry stays behind: after deleting hello
  from the default settings, \<open>snippets\<close> and \<open>icons\<close> have no hello and \<open>groups\<close> still
  has it.
\<close>

theorem handleDeleteSnippet_leaves_group_entry:
  "own_property (groups DEFAULT_SETTINGS) (js ''hello'') = Some []
   \<and> map_of (snippets (handleDeleteSnippet (js ''hello'') DEFAULT_SETTINGS)) (js ''hello'') = None
   \<and> own_property (icons (handleDeleteSnippet (js ''hello'') DEFAULT_SETTINGS)) (js ''hello'') = None
   \<and> own_property (groups (handleDeleteSnippet (js ''hello'') DEFAULT_SETTINGS)) (js ''hello'')
       = Some []"
  by (simp add: eval_repository)

text \<open>
  C5, as the claim states it, fails: a key that is an array index is enumerated before
  every other key, wherever it was created. The key 7 is valid and new in the default
  settings; once added it is the first key, not the last.
\<close>

theorem handleAddSnippet_numeric_key_goes_first:
  "isValid (validateKey (js ''7''))
   \<and> map_of (snippets DEFAULT_SETTINGS) (js ''7'') = None
   \<and> fst (handleAddSnippet (js ''7'') (js ''x'') DEFAULT_SETTINGS) = Added
   \<and> Object_keys (snippets (snd (handleAddSnippet (js ''7'') (js ''x'') DEFAULT_SETTINGS)))
       = [js ''7'', js ''hello'', js ''greet'']"
  by (simp add: eval_repository)

text \<open>
  C5, amended: for every repository state and every key that is not yet present and is
  not an array index (the decimal text of an integer below \<open>2^32 - 1\<close>), a successful
  add appends the new record at the end of the order: the entries of \<open>snippets\<close> are
  the old ones, in their order, followed by the new key with its text; the icon of the
  key is the default icon and its group the empty string; the icon and the group of
  every other key are what they were.
\<close>

theorem handleAddSnippet_appends:
  assumes "handleAddSnippet key value s = (Added, s')"
    and "map_of (snippets s) key = None"
    and "\<not> is_array_index key"
  shows "own_entries (snippets s') = own_entries (snippets s) @ [(key, value)]
     \<and> Object_keys (snippets s') = Object_keys (snippets s) @ [key]
     \<and> own_property (icons s') key = Some DEFAULT_ICON
     \<and> own_property (groups s') key = Some []
     \<and> (\<forall>k. k \<noteq> key \<longrightarrow>
          own_property (icons s') k = own_property (icons s) k
          \<and> own_property (groups s') k = own_property (groups s) k)"
proof -
  from assms(1) have nt: "\<not> truthy (get_property (snippets s) key)"
    and s': "s' = addNewSnippet key value s"
    by (auto simp: handleAddSnippet_def split: if_splits)
  from nt assms(2) have "key \<notin> set Object_prototype_names"
    by (auto simp: get_property_def split: if_splits)
  then have np: "key \<noteq> js ''__proto__''"
    using proto_is_prototype_name by auto
  have sn: "snippets s' = snippets s @ [(key, value)]"
    using np assms(2) by (simp add: s' addNewSnippet_def set_property_def update_absent)
  have e: "own_entries (snippets s') = own_entries (snippets s) @ [(key, value)]"
    using sn assms(3) by (simp add: own_entries_append_plain)
  have i: "own_property (icons s') key = Some DEFAULT_ICON"
    and g: "own_property (groups s') key = Some []"
    using np by (simp_all add: s' addNewSnippet_def own_property_def map_of_set_property_same)
  have o: "own_property (icons s') k = own_property (icons s) k
          \<and> own_property (groups s') k = own_property (groups s) k" if "k \<noteq> key" for k
    using that
    by (simp add: s' addNewSnippet_def own_property_def map_of_set_property_other or_empty_def
        split: option.splits)
  from e i g o show ?thesis
    by (simp add: Object_keys_def)
qed

theorem handleAddSnippet_appends_witness:
  "handleAddSnippet (js ''bye'') (js ''Goodbye {1}'') DEFAULT_SETTINGS
     = (Added, addNewSnippet (js ''bye'') (js ''Goodbye {1}'') DEFAULT_SETTINGS)
   \<and> Object_keys (snippets (addNewSnippet (js ''bye'') (js ''Goodbye {1}'') DEFAULT_SETTINGS))
       = [js ''hello'', js ''greet'', js ''bye'']
   \<and> own_property (icons (addNewSnippet (js ''bye'') (js ''Goodbye {1}'') DEFAULT_SETTINGS))
         (js ''bye'') = Some (js ''stamp'')
   \<and> own_property (groups (addNewSnippet (js ''bye'') (js ''Goodbye {1}'') DEFAULT_SETTINGS))
         (js ''bye'') = Some []"
proof -
  have a: "handleAddSnippet (js ''bye'') (js ''Goodbye {1}'') DEFAULT_SETTINGS
     = (Added, addNewSnippet (js ''bye'') (js ''Goodbye {1}'') DEFAULT_SETTINGS)"
    by (simp add: eval_repository)
  have b: "map_of (snippets DEFAULT_SETTINGS) (js ''bye'') = None"
    by (simp add: eval_repository)
  have c: "\<not> is_array_index (js ''bye'')"
    by (simp add: eval_repository)
  have k: "Object_keys (snippets DEFAULT_SETTINGS) = [js ''hello'', js ''greet'']"
    by (simp add: eval_repository)
  show ?thesis
    using handleAddSnippet_appends [OF a b c] a k by (simp add: DEFAULT_ICON_def)
qed




end
